theory Spec2Isabelle
  imports Complex_Main
begin

section \<open>Data model (types.ts)\<close>

text \<open>
  An \<open>EarthquakeFeature\<close> of the feed. The alert logic reads \<open>id\<close>,
  \<open>properties.mag\<close>, \<open>properties.place\<close>, \<open>properties.time\<close> and
  \<open>geometry.coordinates\<close> (longitude, latitude, depth); the other properties of the
  feed are never read by the functions modelled here. JavaScript numbers are
  modelled as reals, timestamps (milliseconds since the epoch) as integers.
\<close>

record EarthquakeFeature =
  quake_id :: string
  mag :: real
  place :: string
  time :: int
  coordinates :: "real \<times> real \<times> real"

text \<open>An \<open>AlertZone\<close>; \<open>isVisible\<close> is an optional field (\<open>None\<close> is undefined).\<close>

record AlertZone =
  zone_id :: string
  zone_name :: string
  lat :: real
  lng :: real
  radiusKm :: real
  isVisible :: "bool option"

record AlertNotification =
  alert_id :: string
  quakeId :: string
  zoneId :: string
  zoneName :: string
  quakePlace :: string
  alert_mag :: real
  timestamp :: int

text \<open>
  \<open>calculateDistance\<close> is imported from utils/geoUtils, which is not among the
  sources; every function below takes it as the parameter \<open>calculateDistance\<close>
  (zone latitude, zone longitude, quake latitude, quake longitude).
\<close>

type_synonym distance_fn = "real \<Rightarrow> real \<Rightarrow> real \<Rightarrow> real \<Rightarrow> real"

section \<open>Alert evaluation (App.tsx, checkZoneAlerts)\<close>

text \<open>\<open>coordinates[1]\<close> is the latitude, \<open>coordinates[0]\<close> the longitude.\<close>

definition coord_lng :: "EarthquakeFeature \<Rightarrow> real" where
  "coord_lng quake = fst (coordinates quake)"

definition coord_lat :: "EarthquakeFeature \<Rightarrow> real" where
  "coord_lat quake = fst (snd (coordinates quake))"

text \<open>The template literal \<open>`${quake.id}-${zone.id}`\<close>.\<close>

definition alertId :: "EarthquakeFeature \<Rightarrow> AlertZone \<Rightarrow> string" where
  "alertId quake zone = quake_id quake @ ''-'' @ zone_id zone"

text \<open>The object literal pushed onto \<open>newAlerts\<close>.\<close>

definition mkAlert :: "EarthquakeFeature \<Rightarrow> AlertZone \<Rightarrow> AlertNotification" where
  "mkAlert quake zone =
     \<lparr> alert_id = alertId quake zone,
       quakeId = quake_id quake,
       zoneId = zone_id zone,
       zoneName = zone_name zone,
       quakePlace = place quake,
       alert_mag = mag quake,
       timestamp = time quake \<rparr>"

text \<open>
  The body of the inner \<open>currentZones.forEach\<close>: one zone against one quake, with the
  \<open>newAlerts\<close> array built so far. \<open>activeAlerts\<close> is the state value captured by
  the closure; \<open>activeAlerts.find\<close> is \<open>find\<close>, and \<open>!exists\<close> holds when nothing
  was found.
\<close>

definition zoneBody ::
  "distance_fn \<Rightarrow> AlertNotification list \<Rightarrow> EarthquakeFeature \<Rightarrow>
   AlertNotification list \<Rightarrow> AlertZone \<Rightarrow> AlertNotification list" where
  "zoneBody calculateDistance activeAlerts quake newAlerts zone =
     (let dist = calculateDistance (lat zone) (lng zone) (coord_lat quake) (coord_lng quake)
      in if dist \<le> radiusKm zone
         then (let aid = alertId quake zone;
                   exists = find (\<lambda>a. alert_id a = aid) activeAlerts
               in if exists = None then newAlerts @ [mkAlert quake zone] else newAlerts)
         else newAlerts)"

text \<open>
  The body of the outer \<open>quakes.forEach\<close>: the two early \<open>return\<close>s (magnitude below
  the threshold, origin time before \<open>oneDayAgo\<close>), then the loop over the zones.
\<close>

definition quakeBody ::
  "distance_fn \<Rightarrow> int \<Rightarrow> real \<Rightarrow> AlertNotification list \<Rightarrow> AlertZone list \<Rightarrow>
   AlertNotification list \<Rightarrow> EarthquakeFeature \<Rightarrow> AlertNotification list" where
  "quakeBody calculateDistance oneDayAgo minAlertMag activeAlerts currentZones newAlerts quake =
     (if mag quake < minAlertMag then newAlerts
      else if time quake < oneDayAgo then newAlerts
      else foldl (zoneBody calculateDistance activeAlerts quake) newAlerts currentZones)"

text \<open>
  The \<open>newAlerts\<close> array at the end of the two loops; \<open>now\<close> is the value of
  \<open>Date.now()\<close>.
\<close>

definition collectNewAlerts ::
  "distance_fn \<Rightarrow> int \<Rightarrow> real \<Rightarrow> AlertNotification list \<Rightarrow>
   EarthquakeFeature list \<Rightarrow> AlertZone list \<Rightarrow> AlertNotification list" where
  "collectNewAlerts calculateDistance now minAlertMag activeAlerts quakes currentZones =
     (let oneDayAgo = now - (24 * 60 * 60 * 1000)
      in foldl (quakeBody calculateDistance oneDayAgo minAlertMag activeAlerts currentZones)
           [] quakes)"

text \<open>
  \<open>checkZoneAlerts\<close> as a transformer of the active-alert state: \<open>activeAlerts\<close> is
  the value the closure captured (read by the dedup test), \<open>prev\<close> the state the
  functional update \<open>setActiveAlerts(prev => [...newAlerts, ...prev])\<close> is applied to.
  The early return and an empty \<open>newAlerts\<close> leave the state as it is.
\<close>

definition checkZoneAlerts ::
  "distance_fn \<Rightarrow> int \<Rightarrow> real \<Rightarrow> AlertNotification list \<Rightarrow>
   EarthquakeFeature list \<Rightarrow> AlertZone list \<Rightarrow> AlertNotification list \<Rightarrow>
   AlertNotification list" where
  "checkZoneAlerts calculateDistance now minAlertMag activeAlerts quakes currentZones prev =
     (if length currentZones = 0 \<or> length quakes = 0 then prev
      else (let newAlerts =
                  collectNewAlerts calculateDistance now minAlertMag activeAlerts quakes currentZones
            in if length newAlerts > 0 then newAlerts @ prev else prev))"

text \<open>\<open>dismissAlert\<close>: \<open>setActiveAlerts(prev => prev.filter(a => a.id !== id))\<close>.\<close>

definition dismissAlert :: "string \<Rightarrow> AlertNotification list \<Rightarrow> AlertNotification list" where
  "dismissAlert i prev = filter (\<lambda>a. alert_id a \<noteq> i) prev"

section \<open>The active-alert state (App.tsx)\<close>

text \<open>
  \<open>setActiveAlerts\<close> is called at two places only: the merge at the end of
  \<open>checkZoneAlerts\<close> and \<open>dismissAlert\<close>. \<open>AlertOp\<close> names the two, with the values
  the call reads (for a check: \<open>Date.now()\<close>, \<open>minAlertMag\<close>, the captured
  \<open>activeAlerts\<close>, the quakes and the zones), and \<open>activeAlertsStep\<close> is the state
  after one of them.
\<close>

datatype AlertOp =
    Check int real "AlertNotification list" "EarthquakeFeature list" "AlertZone list"
  | Dismiss string

fun activeAlertsStep ::
  "distance_fn \<Rightarrow> AlertOp \<Rightarrow> AlertNotification list \<Rightarrow> AlertNotification list" where
  "activeAlertsStep calculateDistance (Check now minAlertMag activeAlerts quakes currentZones) prev =
     checkZoneAlerts calculateDistance now minAlertMag activeAlerts quakes currentZones prev"
| "activeAlertsStep calculateDistance (Dismiss i) prev = dismissAlert i prev"

section \<open>Notification dispatch (App.tsx)\<close>

text \<open>The settings state read by the sound and voice functions.\<close>

record Settings =
  isSoundEnabled :: bool
  volume :: real
  sirenEnabled :: bool
  quakeSoundEnabled :: bool
  voiceAlertEnabled :: bool

text \<open>
  What the functions ask of the browser: \<open>speechSynthesis\<close> is \<open>None\<close> when
  \<open>'speechSynthesis' in window\<close> is false and otherwise holds the result of
  \<open>getVoices()\<close>; \<open>audioWorks\<close> tells whether the Web Audio calls inside the
  \<open>try\<close> block run through (otherwise the \<open>catch\<close> logs the error).
\<close>

record SpeechSynthesisVoice =
  voice_name :: string
  voice_lang :: string

record Browser =
  speechSynthesis :: "SpeechSynthesisVoice list option"
  audioWorks :: bool

text \<open>
  The text handed to \<open>speakAlert\<close> by the alert monitor is a template literal with
  two holes, \<open>latestAlert.zoneName\<close> and \<open>latestAlert.mag\<close>; \<open>AlertText\<close> keeps the
  two values and leaves out the fixed words around them.
\<close>

datatype SpeechText = AlertText string real

record SpeechSynthesisUtterance =
  utterance_text :: SpeechText
  utterance_volume :: real
  utterance_rate :: real
  utterance_pitch :: real
  utterance_voice :: "SpeechSynthesisVoice option"

text \<open>The observable effects, in the order the code performs them.\<close>

datatype Effect =
    SirenTone real
  | QuakeTone real
  | ConsoleError
  | SpeechCancel
  | SpeechSpeak SpeechSynthesisUtterance

text \<open>\<open>String.prototype.includes\<close>.\<close>

fun includes_str :: "string \<Rightarrow> string \<Rightarrow> bool" where
  "includes_str [] sub = (sub = [])"
| "includes_str (c # cs) sub = (take (length sub) (c # cs) = sub \<or> includes_str cs sub)"

definition speakAlert :: "Browser \<Rightarrow> Settings \<Rightarrow> SpeechText \<Rightarrow> Effect list" where
  "speakAlert browser settings text =
     (case speechSynthesis browser of
        None \<Rightarrow> []
      | Some voices \<Rightarrow>
          (let banglaVoice = find (\<lambda>v. includes_str (voice_lang v) ''bn'') voices;
               utterance = \<lparr> utterance_text = text,
                             utterance_volume = volume settings,
                             utterance_rate = 1.0,
                             utterance_pitch = 1.0,
                             utterance_voice = banglaVoice \<rparr>
           in [SpeechCancel, SpeechSpeak utterance]))"

definition playAlertSiren :: "Browser \<Rightarrow> Settings \<Rightarrow> Effect list" where
  "playAlertSiren browser settings =
     (if \<not> isSoundEnabled settings \<or> \<not> sirenEnabled settings then []
      else if audioWorks browser then [SirenTone (0.3 * volume settings)]
      else [ConsoleError])"

definition playSignificantQuakeSound :: "Browser \<Rightarrow> Settings \<Rightarrow> Effect list" where
  "playSignificantQuakeSound browser settings =
     (if \<not> isSoundEnabled settings \<or> \<not> quakeSoundEnabled settings then []
      else if audioWorks browser then [QuakeTone (0.3 * volume settings)]
      else [ConsoleError])"

text \<open>
  The effect "Monitor Alerts for Sound \& Voice": it takes the ref
  \<open>prevAlertCount.current\<close> and returns the effects with the ref's new value.
\<close>

definition alertMonitor ::
  "Browser \<Rightarrow> Settings \<Rightarrow> AlertNotification list \<Rightarrow> nat \<Rightarrow> Effect list \<times> nat" where
  "alertMonitor browser settings activeAlerts prevAlertCount =
     ((if length activeAlerts > prevAlertCount
       then playAlertSiren browser settings @
            (if voiceAlertEnabled settings \<and> length activeAlerts > 0
             then (case activeAlerts of
                     [] \<Rightarrow> []
                   | latestAlert # _ \<Rightarrow>
                       speakAlert browser settings
                         (AlertText (zoneName latestAlert) (alert_mag latestAlert)))
             else [])
       else []),
      length activeAlerts)"

text \<open>
  The effect "Monitor New Significant Earthquakes for Sound", on the ref
  \<open>prevLatestQuakeId.current\<close> (\<open>None\<close> is null). A string is truthy when it is
  not empty.
\<close>

definition truthy :: "string option \<Rightarrow> bool" where
  "truthy s = (case s of None \<Rightarrow> False | Some v \<Rightarrow> v \<noteq> [])"

definition quakeMonitor ::
  "Browser \<Rightarrow> Settings \<Rightarrow> EarthquakeFeature list \<Rightarrow> string option \<Rightarrow>
   Effect list \<times> string option" where
  "quakeMonitor browser settings earthquakes prevLatestQuakeId =
     (case earthquakes of
        [] \<Rightarrow> ([], prevLatestQuakeId)
      | latest # _ \<Rightarrow>
          ((if truthy prevLatestQuakeId \<and> Some (quake_id latest) \<noteq> prevLatestQuakeId
            then (if mag latest \<ge> 5.5 then playSignificantQuakeSound browser settings else [])
            else []),
           Some (quake_id latest)))"

text \<open>
  Reading a trace: \<open>isSpeak\<close> picks the utterances handed to
  \<open>speechSynthesis.speak\<close>, \<open>isSpeech\<close> every call on \<open>speechSynthesis\<close>.
\<close>

fun isSpeak :: "Effect \<Rightarrow> bool" where
  "isSpeak (SpeechSpeak _) = True"
| "isSpeak _ = False"

fun isSpeech :: "Effect \<Rightarrow> bool" where
  "isSpeech SpeechCancel = True"
| "isSpeech (SpeechSpeak _) = True"
| "isSpeech _ = False"

section \<open>Zone store (App.tsx) and the zone form (MapView.tsx)\<close>

definition addZone :: "AlertZone \<Rightarrow> AlertZone list \<Rightarrow> AlertZone list" where
  "addZone zone prev = prev @ [zone\<lparr>isVisible := Some True\<rparr>]"

definition updateZone :: "AlertZone \<Rightarrow> AlertZone list \<Rightarrow> AlertZone list" where
  "updateZone updatedZone prev =
     map (\<lambda>z. if zone_id z = zone_id updatedZone then updatedZone else z) prev"

definition toggleZoneVisibility :: "string \<Rightarrow> AlertZone list \<Rightarrow> AlertZone list" where
  "toggleZoneVisibility i prev =
     map (\<lambda>z. if zone_id z = i
               then z\<lparr>isVisible := Some (if isVisible z = Some False then True else False)\<rparr>
               else z) prev"

definition deleteZone :: "string \<Rightarrow> AlertZone list \<Rightarrow> AlertZone list" where
  "deleteZone i prev = filter (\<lambda>z. zone_id z \<noteq> i) prev"

text \<open>
  The state of the zone form that \<open>saveZone\<close> reads: \<open>tempZoneLoc\<close> is the pair
  (lat, lng) or null.
\<close>

record ZoneForm =
  tempZoneLoc :: "(real \<times> real) option"
  newZoneName :: string
  newZoneRadius :: real
  editingZoneId :: "string option"

text \<open>
  \<open>saveZone\<close>, with \<open>onUpdateZone\<close> and \<open>onAddZone\<close> bound to \<open>updateZone\<close> and
  \<open>addZone\<close> as App.tsx passes them; the result is the zone list after the call.
  \<open>nowString\<close> is \<open>Date.now().toString()\<close>. \<open>existing?.isVisible\<close> is undefined
  when no zone was found. The clean-up of the form state is not part of the
  result.
\<close>

definition saveZone :: "string \<Rightarrow> ZoneForm \<Rightarrow> AlertZone list \<Rightarrow> AlertZone list" where
  "saveZone nowString form zones =
     (case tempZoneLoc form of
        None \<Rightarrow> zones
      | Some loc \<Rightarrow>
          if newZoneName form = [] then zones
          else if truthy (editingZoneId form)
          then (let eid = the (editingZoneId form);
                    existing = find (\<lambda>z. zone_id z = eid) zones;
                    updatedZone = \<lparr> zone_id = eid,
                                    zone_name = newZoneName form,
                                    lat = fst loc,
                                    lng = snd loc,
                                    radiusKm = newZoneRadius form,
                                    isVisible = (case existing of None \<Rightarrow> None
                                                 | Some z \<Rightarrow> isVisible z) \<rparr>
                in updateZone updatedZone zones)
          else (let newZone = \<lparr> zone_id = nowString,
                                zone_name = newZoneName form,
                                lat = fst loc,
                                lng = snd loc,
                                radiusKm = newZoneRadius form,
                                isVisible = Some True \<rparr>
                in addZone newZone zones))"

section \<open>Example data\<close>

text \<open>
  Inputs for the concrete instances below: a zone around Dhaka, a second zone that
  is hidden, a quake inside both, and a stand-in for the distance function that is
  0 between identical points (111 km per degree of latitude and of longitude).
\<close>

abbreviation exampleDistance :: distance_fn where
  "exampleDistance \<equiv> (\<lambda>lat1 lng1 lat2 lng2. 111 * (\<bar>lat1 - lat2\<bar> + \<bar>lng1 - lng2\<bar>))"

abbreviation exampleNow :: int where
  "exampleNow \<equiv> 1700000100000"

abbreviation exampleQuake :: EarthquakeFeature where
  "exampleQuake \<equiv>
     \<lparr> quake_id = ''us7000'', mag = 4.0, place = ''Dhaka'',
       time = 1700000099000, coordinates = (90.40, 23.79, 10) \<rparr>"

abbreviation exampleZone :: AlertZone where
  "exampleZone \<equiv>
     \<lparr> zone_id = ''17'', zone_name = ''Home'', lat = 23.81, lng = 90.41,
       radiusKm = 50, isVisible = Some True \<rparr>"

abbreviation hiddenZone :: AlertZone where
  "hiddenZone \<equiv>
     \<lparr> zone_id = ''18'', zone_name = ''Office'', lat = 23.80, lng = 90.42,
       radiusKm = 20, isVisible = Some False \<rparr>"

text \<open>
  A quake at the centre of \<open>exampleZone\<close> whose origin time is exactly
  \<open>exampleNow - 86400000\<close>, and one a millisecond older.
\<close>

abbreviation boundaryQuake :: EarthquakeFeature where
  "boundaryQuake \<equiv>
     \<lparr> quake_id = ''us7001'', mag = 4.0, place = ''Dhaka'',
       time = 1699913700000, coordinates = (90.41, 23.81, 10) \<rparr>"

abbreviation staleQuake :: EarthquakeFeature where
  "staleQuake \<equiv>
     \<lparr> quake_id = ''us7002'', mag = 4.0, place = ''Dhaka'',
       time = 1699913699999, coordinates = (90.41, 23.81, 10) \<rparr>"

abbreviation exampleSettings :: Settings where
  "exampleSettings \<equiv>
     \<lparr> isSoundEnabled = True, volume = 1.0, sirenEnabled = True,
       quakeSoundEnabled = True, voiceAlertEnabled = True \<rparr>"

text \<open>
  A quake above the 5.5 floor, a browser with a Bangla voice, a browser without
  \<open>speechSynthesis\<close>, and a zone whose radius is exactly the stand-in distance to
  \<open>exampleQuake\<close>.
\<close>

abbreviation strongQuake :: EarthquakeFeature where
  "strongQuake \<equiv>
     \<lparr> quake_id = ''us7003'', mag = 6.1, place = ''Sylhet'',
       time = 1700000099500, coordinates = (91.87, 24.89, 12) \<rparr>"

abbreviation exampleBrowser :: Browser where
  "exampleBrowser \<equiv>
     \<lparr> speechSynthesis = Some [\<lparr> voice_name = ''Bangla'', voice_lang = ''bn-BD'' \<rparr>],
       audioWorks = True \<rparr>"

abbreviation silentBrowser :: Browser where
  "silentBrowser \<equiv> \<lparr> speechSynthesis = None, audioWorks = True \<rparr>"

abbreviation rimZone :: AlertZone where
  "rimZone \<equiv>
     \<lparr> zone_id = ''19'', zone_name = ''Rim'', lat = 23.81, lng = 90.41,
       radiusKm = 3.33, isVisible = Some True \<rparr>"

section \<open>The loops as comprehensions\<close>

text \<open>One zone contributes at most one alert for a quake.\<close>

definition zoneAlerts ::
  "distance_fn \<Rightarrow> AlertNotification list \<Rightarrow> EarthquakeFeature \<Rightarrow> AlertZone \<Rightarrow>
   AlertNotification list" where
  "zoneAlerts calculateDistance activeAlerts quake zone =
     (if calculateDistance (lat zone) (lng zone) (coord_lat quake) (coord_lng quake) \<le> radiusKm zone
         \<and> find (\<lambda>a. alert_id a = alertId quake zone) activeAlerts = None
      then [mkAlert quake zone] else [])"

definition quakeAlerts ::
  "distance_fn \<Rightarrow> int \<Rightarrow> real \<Rightarrow> AlertNotification list \<Rightarrow> AlertZone list \<Rightarrow>
   EarthquakeFeature \<Rightarrow> AlertNotification list" where
  "quakeAlerts calculateDistance oneDayAgo minAlertMag activeAlerts currentZones quake =
     (if mag quake < minAlertMag \<or> time quake < oneDayAgo then []
      else concat (map (zoneAlerts calculateDistance activeAlerts quake) currentZones))"

lemma zoneBody_append:
  "zoneBody cd act q acc z = acc @ zoneAlerts cd act q z"
  by (simp add: zoneBody_def zoneAlerts_def Let_def)

lemma foldl_zoneBody:
  "foldl (zoneBody cd act q) acc zs = acc @ concat (map (zoneAlerts cd act q) zs)"
  by (induction zs arbitrary: acc) (simp_all add: zoneBody_append)

lemma quakeBody_append:
  "quakeBody cd d m act zs acc q = acc @ quakeAlerts cd d m act zs q"
  by (simp add: quakeBody_def quakeAlerts_def foldl_zoneBody)

lemma foldl_quakeBody:
  "foldl (quakeBody cd d m act zs) acc qs = acc @ concat (map (quakeAlerts cd d m act zs) qs)"
  by (induction qs arbitrary: acc) (simp_all add: quakeBody_append)

lemma collectNewAlerts_concat:
  "collectNewAlerts cd now m act qs zs =
     concat (map (quakeAlerts cd (now - 86400000) m act zs) qs)"
  by (simp add: collectNewAlerts_def foldl_quakeBody)

text \<open>Membership in the result of the two loops.\<close>

lemma collectNewAlerts_mem:
  "a \<in> set (collectNewAlerts cd now m act qs zs) \<longleftrightarrow>
     (\<exists>q \<in> set qs. \<exists>z \<in> set zs.
        \<not> mag q < m \<and> \<not> time q < now - 86400000
        \<and> cd (lat z) (lng z) (coord_lat q) (coord_lng q) \<le> radiusKm z
        \<and> find (\<lambda>b. alert_id b = alertId q z) act = None
        \<and> a = mkAlert q z)"
  by (auto simp: collectNewAlerts_concat quakeAlerts_def zoneAlerts_def split: if_splits)

lemma find_None_ids:
  "find (\<lambda>b. alert_id b = i) act = None \<longleftrightarrow> i \<notin> alert_id ` set act"
  by (auto simp: find_None_iff)

lemma alert_id_mkAlert: "alert_id (mkAlert q z) = alertId q z"
  by (simp add: mkAlert_def)

lemma collectNewAlerts_no_input:
  "qs = [] \<or> zs = [] \<Longrightarrow> collectNewAlerts cd now m act qs zs = []"
  by (auto simp: collectNewAlerts_concat quakeAlerts_def)

lemma checkZoneAlerts_append:
  "checkZoneAlerts cd now m act qs zs prev = collectNewAlerts cd now m act qs zs @ prev"
  by (auto simp: checkZoneAlerts_def Let_def collectNewAlerts_no_input)

lemma qualifying_emitted:
  assumes "q \<in> set qs" "z \<in> set zs" "\<not> mag q < m" "\<not> time q < now - 86400000"
    and "cd (lat z) (lng z) (coord_lat q) (coord_lng q) \<le> radiusKm z"
    and "alertId q z \<notin> alert_id ` set act"
  shows "mkAlert q z \<in> set (collectNewAlerts cd now m act qs zs)"
  using assms unfolding collectNewAlerts_mem find_None_ids by blast

text \<open>The zone's visibility flag is not read.\<close>

lemma zoneAlerts_isVisible:
  "zoneAlerts cd act q (z\<lparr>isVisible := v\<rparr>) = zoneAlerts cd act q z"
  by (simp add: zoneAlerts_def alertId_def mkAlert_def)

lemma quakeAlerts_isVisible:
  "quakeAlerts cd d m act (map (\<lambda>z. z\<lparr>isVisible := f z\<rparr>) zs) = quakeAlerts cd d m act zs"
  by (rule ext) (simp add: quakeAlerts_def zoneAlerts_isVisible comp_def)

lemma collectNewAlerts_isVisible:
  "collectNewAlerts cd now m act qs (map (\<lambda>z. z\<lparr>isVisible := f z\<rparr>) zs)
     = collectNewAlerts cd now m act qs zs"
  by (simp add: collectNewAlerts_concat quakeAlerts_isVisible)

text \<open>With distinct keys, \<open>find\<close> by key returns the element itself.\<close>

lemma find_distinct_key:
  "distinct (map f xs) \<Longrightarrow> x \<in> set xs \<Longrightarrow> find (\<lambda>y. f y = f x) xs = Some x"
  by (induction xs) (auto simp: image_iff)

lemma saveZone_edit_isVisible:
  assumes "distinct (map zone_id zones)" and "truthy (editingZoneId form)"
  shows "map isVisible (saveZone nowString form zones) = map isVisible zones"
proof (cases "tempZoneLoc form")
  case None
  then show ?thesis by (simp add: saveZone_def)
next
  case (Some loc)
  show ?thesis
  proof (cases "newZoneName form = []")
    case True
    with Some show ?thesis by (simp add: saveZone_def)
  next
    case False
    have "isVisible (if zone_id z = the (editingZoneId form)
            then \<lparr> zone_id = the (editingZoneId form), zone_name = newZoneName form,
                   lat = fst loc, lng = snd loc, radiusKm = newZoneRadius form,
                   isVisible = (case find (\<lambda>z. zone_id z = the (editingZoneId form)) zones of
                                  None \<Rightarrow> None | Some z \<Rightarrow> isVisible z) \<rparr>
            else z) = isVisible z" if "z \<in> set zones" for z
      using find_distinct_key [OF assms(1) that] by auto
    with Some False assms(2) show ?thesis
      by (simp add: saveZone_def updateZone_def Let_def)
  qed
qed

text \<open>Unfolding the evaluation on concrete inputs.\<close>

lemmas example_simps = collectNewAlerts_def quakeBody_def zoneBody_def mkAlert_def alertId_def
  coord_lat_def coord_lng_def checkZoneAlerts_def dismissAlert_def Let_def

lemmas dispatch_simps = quakeMonitor_def alertMonitor_def truthy_def playSignificantQuakeSound_def
  playAlertSiren_def speakAlert_def Let_def

section \<open>Deduplication\<close>

text \<open>
  C1. Whatever the events, zones, threshold and time, no alert collected by a run
  of the check carries an id that is already present in the active-alert
  collection the check reads; so a qualifying pair whose id is already active is
  not emitted again, and the alerts prepended by the merge are all new ids.
\<close>

theorem C1_dedup_against_active:
  "\<forall>a \<in> set (collectNewAlerts calculateDistance now minAlertMag activeAlerts quakes currentZones).
     alert_id a \<notin> alert_id ` set activeAlerts"
  by (auto simp: collectNewAlerts_mem find_None_ids alert_id_mkAlert)

text \<open>
  With the alert of the quake for \<open>exampleZone\<close> already active, only the alert for
  \<open>hiddenZone\<close> is collected.
\<close>

theorem C1_dedup_witness:
  "collectNewAlerts exampleDistance exampleNow 3 [mkAlert exampleQuake exampleZone]
      [exampleQuake] [exampleZone, hiddenZone] = [mkAlert exampleQuake hiddenZone]
   \<and> alert_id (mkAlert exampleQuake hiddenZone)
        \<notin> alert_id ` set [mkAlert exampleQuake exampleZone]"
  using C1_dedup_against_active [of exampleDistance exampleNow 3
      "[mkAlert exampleQuake exampleZone]" "[exampleQuake]" "[exampleZone, hiddenZone]"]
  by (simp add: example_simps)

section \<open>Idempotence\<close>

text \<open>
  The dedup test reads the \<open>activeAlerts\<close> value of the render whose closure runs
  the check, while the merge is applied to the live state. When that value is the
  merged state itself (the closure is of the latest render), a second run with the
  same events, zones, threshold and time collects nothing and leaves the state as
  it is.
\<close>

lemma rerun_on_merged_snapshot:
  "collectNewAlerts calculateDistance now minAlertMag
      (checkZoneAlerts calculateDistance now minAlertMag activeAlerts quakes currentZones activeAlerts)
      quakes currentZones = []
   \<and> checkZoneAlerts calculateDistance now minAlertMag
      (checkZoneAlerts calculateDistance now minAlertMag activeAlerts quakes currentZones activeAlerts)
      quakes currentZones
      (checkZoneAlerts calculateDistance now minAlertMag activeAlerts quakes currentZones activeAlerts)
     = checkZoneAlerts calculateDistance now minAlertMag activeAlerts quakes currentZones activeAlerts"
proof -
  let ?new = "collectNewAlerts calculateDistance now minAlertMag activeAlerts quakes currentZones"
  let ?merged = "checkZoneAlerts calculateDistance now minAlertMag activeAlerts quakes currentZones
      activeAlerts"
  have merged: "?merged = ?new @ activeAlerts"
    by (rule checkZoneAlerts_append)
  have none: "a \<notin> set (collectNewAlerts calculateDistance now minAlertMag ?merged quakes currentZones)"
    for a
  proof
    assume "a \<in> set (collectNewAlerts calculateDistance now minAlertMag ?merged quakes currentZones)"
    then obtain q z where q: "q \<in> set quakes" and z: "z \<in> set currentZones"
      and big: "\<not> mag q < minAlertMag" and recent: "\<not> time q < now - 86400000"
      and near: "calculateDistance (lat z) (lng z) (coord_lat q) (coord_lng q) \<le> radiusKm z"
      and fresh: "alertId q z \<notin> alert_id ` set ?merged"
      unfolding collectNewAlerts_mem find_None_ids by blast
    from fresh merged have "alertId q z \<notin> alert_id ` set activeAlerts"
      by auto
    with q z big recent near have "mkAlert q z \<in> set ?new"
      by (rule qualifying_emitted)
    then have "alert_id (mkAlert q z) \<in> alert_id ` set ?merged"
      using merged by auto
    with fresh show False
      by (simp add: alert_id_mkAlert)
  qed
  have empty: "collectNewAlerts calculateDistance now minAlertMag ?merged quakes currentZones = []"
  proof (cases "collectNewAlerts calculateDistance now minAlertMag ?merged quakes currentZones")
    case Nil
    then show ?thesis .
  next
    case (Cons a as)
    then have "a \<in> set (collectNewAlerts calculateDistance now minAlertMag ?merged quakes currentZones)"
      by simp
    with none show ?thesis
      by simp
  qed
  then show ?thesis
    by (simp add: checkZoneAlerts_append [of _ _ _ ?merged])
qed

text \<open>
  C2 does not hold for the periodic refresh. The effect of lines 322 to 334 depends
  on \<open>period\<close> only, so its \<open>setInterval\<close> callback keeps calling the \<open>loadData\<close> of
  the render that registered it; on mount that render holds \<open>activeAlerts = []\<close>.
  The first run, on the empty state, raises the alerts of \<open>exampleQuake\<close> for both
  zones. The second run, with the same events, zones, threshold and time, reads
  the same empty snapshot, collects the two alerts again and puts them in front of
  the live state, which then holds each id twice.
\<close>

theorem C2_stale_rerun_duplicates:
  "checkZoneAlerts exampleDistance exampleNow 3 [] [exampleQuake] [exampleZone, hiddenZone] []
     = [mkAlert exampleQuake exampleZone, mkAlert exampleQuake hiddenZone]
   \<and> collectNewAlerts exampleDistance exampleNow 3 [] [exampleQuake] [exampleZone, hiddenZone]
     = [mkAlert exampleQuake exampleZone, mkAlert exampleQuake hiddenZone]
   \<and> checkZoneAlerts exampleDistance exampleNow 3 [] [exampleQuake] [exampleZone, hiddenZone]
        (checkZoneAlerts exampleDistance exampleNow 3 [] [exampleQuake] [exampleZone, hiddenZone] [])
     = [mkAlert exampleQuake exampleZone, mkAlert exampleQuake hiddenZone,
        mkAlert exampleQuake exampleZone, mkAlert exampleQuake hiddenZone]"
  by (simp add: example_simps)

section \<open>Recency boundary\<close>

text \<open>
  C3, as stated, fails: the check skips a quake when \<open>time < oneDayAgo\<close>, so a quake
  whose origin time is exactly \<open>now - 86400000\<close> is not skipped. \<open>boundaryQuake\<close>,
  at the centre of \<open>exampleZone\<close>, raises an alert.
\<close>

theorem C3_boundary_event_alerts:
  "time boundaryQuake = exampleNow - 86400000
   \<and> collectNewAlerts exampleDistance exampleNow 3 [] [boundaryQuake] [exampleZone]
      = [mkAlert boundaryQuake exampleZone]"
  by (simp add: example_simps)

text \<open>
  C3 (amended). A quake whose origin time equals \<open>now - 86400000\<close> passes the
  recency filter: if it also meets the threshold, lies within the radius of a zone
  and its pair id is not active, its alert is collected. A quake is excluded only
  when its age is strictly greater than the window: every collected alert has age
  at most 86400000 ms.
\<close>

theorem C3_recency_strict:
  "(q \<in> set quakes \<and> z \<in> set currentZones \<and> time q = now - 86400000
      \<and> \<not> mag q < minAlertMag
      \<and> calculateDistance (lat z) (lng z) (coord_lat q) (coord_lng q) \<le> radiusKm z
      \<and> quake_id q @ ''-'' @ zone_id z \<notin> alert_id ` set activeAlerts
     \<longrightarrow> mkAlert q z
           \<in> set (collectNewAlerts calculateDistance now minAlertMag activeAlerts quakes currentZones))
   \<and> (\<forall>a \<in> set (collectNewAlerts calculateDistance now minAlertMag activeAlerts quakes currentZones).
         now - timestamp a \<le> 86400000)"
proof (intro conjI impI ballI)
  assume h: "q \<in> set quakes \<and> z \<in> set currentZones \<and> time q = now - 86400000
      \<and> \<not> mag q < minAlertMag
      \<and> calculateDistance (lat z) (lng z) (coord_lat q) (coord_lng q) \<le> radiusKm z
      \<and> quake_id q @ ''-'' @ zone_id z \<notin> alert_id ` set activeAlerts"
  then have "\<not> time q < now - 86400000" by simp
  with h show "mkAlert q z
     \<in> set (collectNewAlerts calculateDistance now minAlertMag activeAlerts quakes currentZones)"
    by (intro qualifying_emitted) (simp_all add: alertId_def)
next
  fix a
  assume "a \<in> set (collectNewAlerts calculateDistance now minAlertMag activeAlerts quakes currentZones)"
  then obtain q z where "\<not> time q < now - 86400000" and "a = mkAlert q z"
    unfolding collectNewAlerts_mem by blast
  then show "now - timestamp a \<le> 86400000"
    by (simp add: mkAlert_def)
qed

theorem C3_recency_strict_witness:
  "mkAlert boundaryQuake exampleZone
     \<in> set (collectNewAlerts exampleDistance exampleNow 3 [] [boundaryQuake, staleQuake]
          [exampleZone])
   \<and> collectNewAlerts exampleDistance exampleNow 3 [] [boundaryQuake, staleQuake] [exampleZone]
      = [mkAlert boundaryQuake exampleZone]
   \<and> exampleNow - timestamp (mkAlert boundaryQuake exampleZone) \<le> 86400000"
  using C3_recency_strict [of boundaryQuake "[boundaryQuake, staleQuake]"
      exampleZone "[exampleZone]" exampleNow 3 exampleDistance "[]"]
  by (simp add: example_simps)

section \<open>Significant-quake sound\<close>

text \<open>
  C4. The significant-quake monitor produces no effect when no previous latest id
  has been recorded (the first non-empty load), none when the head of the list has
  the id recorded before, and whenever it does produce an effect the list has a
  head whose id differs from a recorded, non-empty previous id and whose magnitude
  is at least 5.5.
\<close>

theorem C4_quake_sound_trigger:
  "fst (quakeMonitor browser settings earthquakes None) = []
   \<and> fst (quakeMonitor browser settings (latest # rest) (Some (quake_id latest))) = []
   \<and> (fst (quakeMonitor browser settings earthquakes prevLatestQuakeId) \<noteq> []
        \<longrightarrow> (\<exists>latest rest. earthquakes = latest # rest
              \<and> truthy prevLatestQuakeId
              \<and> prevLatestQuakeId \<noteq> Some (quake_id latest)
              \<and> mag latest \<ge> 5.5))"
  by (auto simp: quakeMonitor_def truthy_def split: list.splits option.splits if_splits)

theorem C4_quake_sound_trigger_witness:
  "fst (quakeMonitor exampleBrowser exampleSettings [strongQuake, exampleQuake] None) = []
   \<and> fst (quakeMonitor exampleBrowser exampleSettings [strongQuake, exampleQuake]
        (Some ''us7003'')) = []
   \<and> fst (quakeMonitor exampleBrowser exampleSettings [strongQuake, exampleQuake]
        (Some ''us7000'')) = [QuakeTone 0.3]
   \<and> mag strongQuake \<ge> 5.5
   \<and> fst (quakeMonitor exampleBrowser exampleSettings [exampleQuake, strongQuake]
        (Some ''us7003'')) = []"
  using C4_quake_sound_trigger [where browser = exampleBrowser and settings = exampleSettings
      and earthquakes = "[strongQuake, exampleQuake]" and latest = strongQuake
      and rest = "[exampleQuake]" and prevLatestQuakeId = "Some ''us7000''"]
  by (simp add: dispatch_simps)

section \<open>Voice alert\<close>

text \<open>
  C5, as stated, fails where the browser has no \<open>speechSynthesis\<close>: \<open>speakAlert\<close>
  returns at its first line, so an increase of the alert count with the voice
  channel enabled produces no utterance.
\<close>

theorem C5_no_utterance_without_speech:
  "voiceAlertEnabled exampleSettings
   \<and> length [mkAlert exampleQuake exampleZone] > 0
   \<and> length (filter isSpeak
        (fst (alertMonitor silentBrowser exampleSettings [mkAlert exampleQuake exampleZone] 0))) \<noteq> 1"
  by (simp add: dispatch_simps)

text \<open>
  C5 (amended). On an increase of the active-alert count with the voice channel
  enabled: when the browser provides \<open>speechSynthesis\<close>, the speech calls of the
  cycle are exactly one cancel followed by one utterance, for the head of the
  active alerts with its zone name and magnitude, however many alerts were added;
  when it does not, there is no speech call.
\<close>

theorem C5_one_utterance:
  "voiceAlertEnabled settings \<and> length (latestAlert # rest) > prevAlertCount \<longrightarrow>
     (case speechSynthesis browser of
        None \<Rightarrow>
          filter isSpeech (fst (alertMonitor browser settings (latestAlert # rest) prevAlertCount)) = []
      | Some voices \<Rightarrow>
          filter isSpeech (fst (alertMonitor browser settings (latestAlert # rest) prevAlertCount))
            = [SpeechCancel,
               SpeechSpeak \<lparr> utterance_text = AlertText (zoneName latestAlert) (alert_mag latestAlert),
                             utterance_volume = volume settings,
                             utterance_rate = 1,
                             utterance_pitch = 1,
                             utterance_voice = find (\<lambda>v. includes_str (voice_lang v) ''bn'') voices \<rparr>])"
  by (auto simp: alertMonitor_def speakAlert_def playAlertSiren_def Let_def split: option.splits)

theorem C5_one_utterance_witness:
  "voiceAlertEnabled exampleSettings
   \<and> length [mkAlert exampleQuake hiddenZone, mkAlert exampleQuake exampleZone] > 0
   \<and> fst (alertMonitor exampleBrowser exampleSettings
        [mkAlert exampleQuake hiddenZone, mkAlert exampleQuake exampleZone] 0)
      = [SirenTone 0.3, SpeechCancel,
         SpeechSpeak \<lparr> utterance_text = AlertText ''Office'' 4,
                       utterance_volume = 1, utterance_rate = 1, utterance_pitch = 1,
                       utterance_voice = Some \<lparr> voice_name = ''Bangla'', voice_lang = ''bn-BD'' \<rparr> \<rparr>]"
  using C5_one_utterance [where settings = exampleSettings
      and latestAlert = "mkAlert exampleQuake hiddenZone"
      and rest = "[mkAlert exampleQuake exampleZone]"
      and prevAlertCount = 0 and browser = exampleBrowser]
  by (simp add: dispatch_simps mkAlert_def)

section \<open>Visibility\<close>

text \<open>
  C6. Changing the visibility flags of the zones in any way (in particular from
  true to false) changes neither the alerts the check collects nor the state it
  leaves: same ids, same snapshotted fields.
\<close>

theorem C6_visibility_independent:
  "collectNewAlerts calculateDistance now minAlertMag activeAlerts quakes
      (map (\<lambda>z. z\<lparr>isVisible := f z\<rparr>) currentZones)
     = collectNewAlerts calculateDistance now minAlertMag activeAlerts quakes currentZones
   \<and> checkZoneAlerts calculateDistance now minAlertMag activeAlerts quakes
      (map (\<lambda>z. z\<lparr>isVisible := f z\<rparr>) currentZones) prev
     = checkZoneAlerts calculateDistance now minAlertMag activeAlerts quakes currentZones prev"
  by (simp add: checkZoneAlerts_append collectNewAlerts_isVisible)

theorem C6_visibility_independent_witness:
  "collectNewAlerts exampleDistance exampleNow 3 [] [exampleQuake]
      [exampleZone\<lparr>isVisible := Some False\<rparr>]
     = collectNewAlerts exampleDistance exampleNow 3 [] [exampleQuake] [exampleZone]
   \<and> collectNewAlerts exampleDistance exampleNow 3 [] [exampleQuake]
      [exampleZone\<lparr>isVisible := Some False\<rparr>] = [mkAlert exampleQuake exampleZone]"
  using C6_visibility_independent [where calculateDistance = exampleDistance and now = exampleNow
      and minAlertMag = 3 and activeAlerts = "[]" and quakes = "[exampleQuake]"
      and currentZones = "[exampleZone]" and f = "\<lambda>z. Some False" and prev = "[]"]
  by (simp add: example_simps)

section \<open>Zone update\<close>

text \<open>
  C7, as stated, fails for \<open>updateZone\<close>: it puts the update in the place of the
  matched zone, so an update without \<open>isVisible\<close> leaves the hidden zone with an
  undefined flag.
\<close>

theorem C7_update_resets_omitted_visibility:
  "isVisible hiddenZone = Some False
   \<and> map isVisible
        (updateZone \<lparr> zone_id = ''18'', zone_name = ''Office'', lat = 23.80, lng = 90.42,
                      radiusKm = 25, isVisible = None \<rparr> [exampleZone, hiddenZone])
      = [Some True, None]"
  by (simp add: updateZone_def)

text \<open>
  C7 (amended). \<open>updateZone\<close> replaces every zone matched by id with the update as
  a whole, \<open>isVisible\<close> included. The previous visibility is kept by the caller:
  \<open>saveZone\<close>, when editing, copies the existing zone's \<open>isVisible\<close> into the
  update, so with unique zone ids the visibility of every zone is the same after
  the edit.
\<close>

theorem C7_visibility_kept_by_caller:
  "(\<forall>z \<in> set (updateZone updatedZone prev).
       zone_id z = zone_id updatedZone \<longrightarrow> z = updatedZone)
   \<and> (distinct (map zone_id zones) \<and> truthy (editingZoneId form)
        \<longrightarrow> map isVisible (saveZone nowString form zones) = map isVisible zones)"
  by (auto simp: updateZone_def saveZone_edit_isVisible)

theorem C7_visibility_kept_by_caller_witness:
  "distinct (map zone_id [exampleZone, hiddenZone])
   \<and> truthy (Some ''18'')
   \<and> saveZone ''1700000100000''
        \<lparr> tempZoneLoc = Some (23.80, 90.42), newZoneName = ''Office'', newZoneRadius = 25,
          editingZoneId = Some ''18'' \<rparr> [exampleZone, hiddenZone]
      = [exampleZone, hiddenZone\<lparr>radiusKm := 25\<rparr>]
   \<and> map isVisible [exampleZone, hiddenZone\<lparr>radiusKm := 25\<rparr>] = [Some True, Some False]"
  using C7_visibility_kept_by_caller [where zones = "[exampleZone, hiddenZone]"
      and form = "\<lparr> tempZoneLoc = Some (23.80, 90.42), newZoneName = ''Office'',
          newZoneRadius = 25, editingZoneId = Some ''18'' \<rparr>"
      and nowString = "''1700000100000''"
      and updatedZone = "hiddenZone\<lparr>radiusKm := 25\<rparr>" and prev = "[exampleZone, hiddenZone]"]
  by (simp add: saveZone_def updateZone_def truthy_def Let_def)

section \<open>The active alerts only grow until dismissed\<close>

text \<open>
  C8. A check leaves the active alerts as they are or puts new alerts in front of
  them, keeping every alert that was there; a dismissal keeps exactly the alerts
  whose id is not the dismissed one; and when a step of the state loses an alert,
  the step is the dismissal of that alert's id.
\<close>

theorem C8_additive_until_dismissed:
  "(\<exists>newAlerts.
       activeAlertsStep calculateDistance (Check now minAlertMag activeAlerts quakes currentZones) prev
         = newAlerts @ prev)
   \<and> activeAlertsStep calculateDistance (Dismiss i) prev = filter (\<lambda>a. alert_id a \<noteq> i) prev
   \<and> (a \<in> set prev \<and> a \<notin> set (activeAlertsStep calculateDistance op prev)
        \<longrightarrow> op = Dismiss (alert_id a))"
proof (intro conjI impI)
  show "\<exists>newAlerts.
       activeAlertsStep calculateDistance (Check now minAlertMag activeAlerts quakes currentZones) prev
         = newAlerts @ prev"
    by (simp add: checkZoneAlerts_append)
  show "activeAlertsStep calculateDistance (Dismiss i) prev = filter (\<lambda>a. alert_id a \<noteq> i) prev"
    by (simp add: dismissAlert_def)
  assume "a \<in> set prev \<and> a \<notin> set (activeAlertsStep calculateDistance op prev)"
  then show "op = Dismiss (alert_id a)"
    by (cases op) (auto simp: checkZoneAlerts_append dismissAlert_def)
qed

theorem C8_additive_until_dismissed_witness:
  "activeAlertsStep exampleDistance (Check exampleNow 3 [mkAlert exampleQuake exampleZone]
        [exampleQuake] [exampleZone, hiddenZone]) [mkAlert exampleQuake exampleZone]
     = [mkAlert exampleQuake hiddenZone, mkAlert exampleQuake exampleZone]
   \<and> activeAlertsStep exampleDistance (Dismiss ''us7000-17'')
        [mkAlert exampleQuake hiddenZone, mkAlert exampleQuake exampleZone]
     = [mkAlert exampleQuake hiddenZone]
   \<and> mkAlert exampleQuake exampleZone
        \<in> set [mkAlert exampleQuake hiddenZone, mkAlert exampleQuake exampleZone]
   \<and> mkAlert exampleQuake exampleZone
        \<notin> set (activeAlertsStep exampleDistance (Dismiss ''us7000-17'')
             [mkAlert exampleQuake hiddenZone, mkAlert exampleQuake exampleZone])
   \<and> alert_id (mkAlert exampleQuake exampleZone) = ''us7000-17''"
  using C8_additive_until_dismissed [where calculateDistance = exampleDistance
      and op = "Dismiss ''us7000-17''" and a = "mkAlert exampleQuake exampleZone"
      and prev = "[mkAlert exampleQuake hiddenZone, mkAlert exampleQuake exampleZone]"
      and i = "''us7000-17''" and now = exampleNow and minAlertMag = 3 and activeAlerts = "[]"
      and quakes = "[]" and currentZones = "[]"]
  by (simp add: example_simps)

section \<open>Distance boundary\<close>

text \<open>
  C9. A quake that passes the magnitude and recency filters and whose computed
  distance from a zone's centre equals the zone's \<open>radiusKm\<close> qualifies: its alert
  is collected (unless its pair id is already active).
\<close>

theorem C9_distance_boundary_inclusive:
  assumes "q \<in> set quakes" and "z \<in> set currentZones"
    and "\<not> mag q < minAlertMag" and "\<not> time q < now - 86400000"
    and "calculateDistance (lat z) (lng z) (coord_lat q) (coord_lng q) = radiusKm z"
    and "quake_id q @ ''-'' @ zone_id z \<notin> alert_id ` set activeAlerts"
  shows "mkAlert q z
     \<in> set (collectNewAlerts calculateDistance now minAlertMag activeAlerts quakes currentZones)"
  using assms by (intro qualifying_emitted) (simp_all add: alertId_def)

theorem C9_distance_boundary_inclusive_witness:
  "exampleQuake \<in> set [exampleQuake] \<and> rimZone \<in> set [rimZone]
   \<and> \<not> mag exampleQuake < 3 \<and> \<not> time exampleQuake < exampleNow - 86400000
   \<and> exampleDistance (lat rimZone) (lng rimZone) (coord_lat exampleQuake) (coord_lng exampleQuake)
       = radiusKm rimZone
   \<and> mkAlert exampleQuake rimZone
       \<in> set (collectNewAlerts exampleDistance exampleNow 3 [] [exampleQuake] [rimZone])"
  using C9_distance_boundary_inclusive [where q = exampleQuake and quakes = "[exampleQuake]"
      and z = rimZone and currentZones = "[rimZone]" and minAlertMag = 3 and now = exampleNow
      and calculateDistance = exampleDistance and activeAlerts = "[]"]
  by (simp add: coord_lat_def coord_lng_def)

section \<open>Dismissal\<close>

text \<open>
  When the check that follows a dismissal reads the active alerts as the dismissal
  left them, a pair that still meets the magnitude, recency and distance
  conditions gets a fresh alert with the same id, merged into the state.
\<close>

lemma check_on_dismissed_snapshot:
  assumes "a \<in> set activeAlerts" and "alert_id a = quake_id q @ ''-'' @ zone_id z"
    and "q \<in> set quakes" and "z \<in> set currentZones"
    and "\<not> mag q < minAlertMag" and "\<not> time q < now - 86400000"
    and "calculateDistance (lat z) (lng z) (coord_lat q) (coord_lng q) \<le> radiusKm z"
  shows "mkAlert q z
     \<in> set (collectNewAlerts calculateDistance now minAlertMag
          (dismissAlert (alert_id a) activeAlerts) quakes currentZones)
   \<and> alert_id (mkAlert q z) = alert_id a
   \<and> mkAlert q z
     \<in> set (checkZoneAlerts calculateDistance now minAlertMag
          (dismissAlert (alert_id a) activeAlerts) quakes currentZones
          (dismissAlert (alert_id a) activeAlerts))"
proof -
  have "alertId q z \<notin> alert_id ` set (dismissAlert (alert_id a) activeAlerts)"
    using assms(2) by (auto simp: dismissAlert_def alertId_def)
  with assms(3-7) have "mkAlert q z
     \<in> set (collectNewAlerts calculateDistance now minAlertMag
          (dismissAlert (alert_id a) activeAlerts) quakes currentZones)"
    by (intro qualifying_emitted)
  then show ?thesis
    using assms(2) by (simp add: checkZoneAlerts_append alert_id_mkAlert alertId_def)
qed

text \<open>
  C10 does not hold for a check whose closure was created while the alert was
  active: a \<open>loadData\<close> that is awaiting its fetch (line 279) when the user
  dismisses, or an interval callback registered in such a render. The dismissal
  empties the live state, but the check still finds the dismissed alert in its
  \<open>activeAlerts\<close> snapshot, so the still-qualifying pair of \<open>exampleQuake\<close> and
  \<open>exampleZone\<close> is not raised again.
\<close>

theorem C10_stale_check_emits_nothing:
  "alert_id (mkAlert exampleQuake exampleZone) = ''us7000-17''
   \<and> dismissAlert ''us7000-17'' [mkAlert exampleQuake exampleZone] = []
   \<and> collectNewAlerts exampleDistance exampleNow 3 [mkAlert exampleQuake exampleZone]
        [exampleQuake] [exampleZone] = []
   \<and> checkZoneAlerts exampleDistance exampleNow 3 [mkAlert exampleQuake exampleZone]
        [exampleQuake] [exampleZone]
        (dismissAlert ''us7000-17'' [mkAlert exampleQuake exampleZone]) = []"
  by (simp add: example_simps)

end
